theory Spec2Isabelle
  imports Main "HOL-Library.Multiset"
begin

section \<open>Domain types\<close>

text \<open>
  \<^verbatim>\<open>src/types.ts\<close> is imported by \<^verbatim>\<open>App.tsx\<close> but is not among the files verified here.
  \<^verbatim>\<open>App.tsx\<close> names the four members of \<^verbatim>\<open>Suit\<close>, the member \<^verbatim>\<open>Rank.EIGHT\<close>, the fields
  \<^verbatim>\<open>id\<close>, \<^verbatim>\<open>suit\<close>, \<^verbatim>\<open>rank\<close> of \<^verbatim>\<open>CardData\<close>, the values \<^verbatim>\<open>'player'\<close> and \<^verbatim>\<open>'ai'\<close> of \<^verbatim>\<open>Turn\<close>
  and the values \<^verbatim>\<open>'playing'\<close>, \<^verbatim>\<open>'player_won'\<close>, \<^verbatim>\<open>'ai_won'\<close> of \<^verbatim>\<open>GameStatus\<close>.
\<close>

datatype suit = HEARTS | DIAMONDS | CLUBS | SPADES

text \<open>
  Modelled from the spec: the members of \<^verbatim>\<open>Rank\<close> other than \<^verbatim>\<open>EIGHT\<close> (section 3 of the
  specification: Ace, 2 to 10, Jack, Queen, King).
\<close>

datatype rank =
  ACE | TWO | THREE | FOUR | FIVE | SIX | SEVEN | EIGHT | NINE | TEN | JACK | QUEEN | KING

record CardData =
  card_id :: string
  suit :: suit
  rank :: rank

datatype Turn = Player | Ai

datatype GameStatus = Playing | Player_won | Ai_won

text \<open>
  The status line. Every text the controller passes to \<^verbatim>\<open>setMessage\<close> is one constructor;
  the template literals keep their arguments.
\<close>

datatype message =
  Msg_welcome           \<comment> \<open>\<^verbatim>\<open>"Welcome to Crazy Eights!"\<close>\<close>
  | Msg_your_turn       \<comment> \<open>\<^verbatim>\<open>"Your turn! Match the suit or rank."\<close>\<close>
  | Msg_player_won      \<comment> \<open>\<^verbatim>\<open>"Congratulations! You won!"\<close>\<close>
  | Msg_ai_won          \<comment> \<open>\<^verbatim>\<open>"AI won! Better luck next time."\<close>\<close>
  | Msg_deck_empty      \<comment> \<open>\<^verbatim>\<open>"Deck is empty! Skipping turn."\<close>\<close>
  | Msg_you_drew        \<comment> \<open>\<^verbatim>\<open>"You drew a card."\<close>\<close>
  | Msg_ai_drew         \<comment> \<open>\<^verbatim>\<open>"AI drew a card."\<close>\<close>
  | Msg_choose_suit     \<comment> \<open>\<^verbatim>\<open>"Choose a new suit!"\<close>\<close>
  | Msg_ai_chose suit   \<comment> \<open>\<^verbatim>\<open>`AI played an 8 and chose ${bestSuit}!`\<close>\<close>
  | Msg_played Turn rank suit
                        \<comment> \<open>\<^verbatim>\<open>`${target === 'player' ? 'You' : 'AI'} played ${card.rank} of ${card.suit}.`\<close>\<close>
  | Msg_ai_no_moves     \<comment> \<open>\<^verbatim>\<open>"AI has no moves and deck is empty. Skipping."\<close>\<close>
  | Msg_you_chose suit  \<comment> \<open>\<^verbatim>\<open>`You chose ${suit}!`\<close>\<close>

datatype error = TypeError

section \<open>The state of the controller\<close>

text \<open>The ten \<^verbatim>\<open>useState\<close> cells of \<^verbatim>\<open>App\<close>, with their initial values.\<close>

record game_state =
  deck :: "CardData list"
  playerHand :: "CardData list"
  aiHand :: "CardData list"
  discardPile :: "CardData list"
  currentSuit :: "suit option"
  turn :: Turn
  status :: GameStatus
  showSuitSelector :: bool
  message :: message
  isAiThinking :: bool

definition initial_state :: game_state where
  "initial_state =
     \<lparr> deck = [], playerHand = [], aiHand = [], discardPile = [], currentSuit = None,
       turn = Player, status = Playing, showSuitSelector = False, message = Msg_welcome,
       isAiThinking = False \<rparr>"

text \<open>
  A call of a state setter. A handler does not change the state it reads: it reads the
  values of the render that created it and queues setter calls, which are applied, in
  order, to the state that is current when the handler has run.
\<close>

datatype update =
  SetDeck "CardData list"
  | SetPlayerHand "CardData list"
  | SetAiHand "CardData list"
  | SetDiscardPile "CardData list"
  | SetCurrentSuit "suit option"
  | SetTurn Turn
  | SetStatus GameStatus
  | SetShowSuitSelector bool
  | SetMessage message
  | SetIsAiThinking bool

fun apply_update :: "update \<Rightarrow> game_state \<Rightarrow> game_state" where
  "apply_update (SetDeck v) s = s\<lparr>deck := v\<rparr>"
| "apply_update (SetPlayerHand v) s = s\<lparr>playerHand := v\<rparr>"
| "apply_update (SetAiHand v) s = s\<lparr>aiHand := v\<rparr>"
| "apply_update (SetDiscardPile v) s = s\<lparr>discardPile := v\<rparr>"
| "apply_update (SetCurrentSuit v) s = s\<lparr>currentSuit := v\<rparr>"
| "apply_update (SetTurn v) s = s\<lparr>turn := v\<rparr>"
| "apply_update (SetStatus v) s = s\<lparr>status := v\<rparr>"
| "apply_update (SetShowSuitSelector v) s = s\<lparr>showSuitSelector := v\<rparr>"
| "apply_update (SetMessage v) s = s\<lparr>message := v\<rparr>"
| "apply_update (SetIsAiThinking v) s = s\<lparr>isAiThinking := v\<rparr>"

fun apply_updates :: "update list \<Rightarrow> game_state \<Rightarrow> game_state" where
  "apply_updates [] s = s"
| "apply_updates (u # us) s = apply_updates us (apply_update u s)"

text \<open>
  The callbacks handed to \<^verbatim>\<open>setTimeout\<close>. Each closes over the render that created it,
  which is the state the callback carries:
  \<^item> \<^verbatim>\<open>() => setTurn(t)\<close> (lines 90 and 149 to 153);
  \<^item> \<^verbatim>\<open>() => { if (!checkWin()) setTurn(t) }\<close> (lines 122, 128 and 168);
  \<^item> the opponent's decision (lines 138 to 160).
\<close>

datatype callback =
  CbSetTurn Turn
  | CbCheckWinSetTurn game_state Turn
  | CbAiTurn game_state

text \<open>
  What running a handler does: the setter calls it makes, the timers it starts (delay in
  milliseconds and callback), and the exception that ended it, if one did.
\<close>

record effect =
  updates :: "update list"
  timers :: "(nat \<times> callback) list"
  raised :: "error option"

definition run_effect :: "effect \<Rightarrow> game_state \<Rightarrow> game_state" where
  "run_effect e s = apply_updates (updates e) s"

section \<open>The operations of \<^verbatim>\<open>App.tsx\<close>\<close>

subsection \<open>\<^verbatim>\<open>initGame\<close>\<close>

text \<open>
  The loop \<^verbatim>\<open>while (fullDeck[firstDiscardIndex].rank === Rank.EIGHT) firstDiscardIndex++\<close>.
  Reading \<^verbatim>\<open>.rank\<close> of \<^verbatim>\<open>undefined\<close>, past the end of the array, is a \<^verbatim>\<open>TypeError\<close>.
\<close>

function firstDiscardIndex :: "CardData list \<Rightarrow> nat \<Rightarrow> error + nat" where
  "firstDiscardIndex fullDeck i =
     (if i < length fullDeck
      then (if rank (fullDeck ! i) = EIGHT then firstDiscardIndex fullDeck (Suc i) else Inr i)
      else Inl TypeError)"
  by pat_completeness auto
termination
  by (relation "measure (\<lambda>(fullDeck, i). length fullDeck - i)") auto

declare firstDiscardIndex.simps [simp del]

text \<open>
  \<^verbatim>\<open>initGame\<close>, given the value of \<^verbatim>\<open>shuffleDeck(createDeck())\<close> (\<^verbatim>\<open>src/constants.ts\<close> is not
  among the files verified here, so the shuffled deck is a parameter).
\<close>

definition initGame :: "CardData list \<Rightarrow> effect" where
  "initGame shuffled =
     (let pHand = take 8 shuffled;
          fullDeck1 = drop 8 shuffled;
          aHand = take 8 fullDeck1;
          fullDeck2 = drop 8 fullDeck1
      in case firstDiscardIndex fullDeck2 0 of
           Inl e \<Rightarrow> \<lparr> updates = [], timers = [], raised = Some e \<rparr>
         | Inr i \<Rightarrow>
             (let firstDiscard = fullDeck2 ! i;
                  fullDeck3 = take i fullDeck2 @ drop (Suc i) fullDeck2
              in \<lparr> updates =
                     [SetDeck fullDeck3, SetPlayerHand pHand, SetAiHand aHand,
                      SetDiscardPile [firstDiscard], SetCurrentSuit (Some (suit firstDiscard)),
                      SetTurn Player, SetStatus Playing, SetMessage Msg_your_turn,
                      SetShowSuitSelector False, SetIsAiThinking False],
                   timers = [], raised = None \<rparr>))"

subsection \<open>\<^verbatim>\<open>checkWin\<close> and \<^verbatim>\<open>canPlay\<close>\<close>

definition checkWin :: "game_state \<Rightarrow> update list \<times> bool" where
  "checkWin s =
     (if length (playerHand s) = 0 then ([SetStatus Player_won, SetMessage Msg_player_won], True)
      else if length (aiHand s) = 0 then ([SetStatus Ai_won, SetMessage Msg_ai_won], True)
      else ([], False))"

text \<open>
  \<^verbatim>\<open>discardPile[discardPile.length - 1]\<close> is \<^verbatim>\<open>undefined\<close> on the empty pile; the read of
  \<^verbatim>\<open>topCard.rank\<close> then throws, but only when \<^verbatim>\<open>||\<close> evaluates its right operand.
\<close>

definition canPlay :: "game_state \<Rightarrow> CardData \<Rightarrow> error + bool" where
  "canPlay s crd =
     (if rank crd = EIGHT then Inr True
      else let topCard = (if discardPile s = [] then None else Some (last (discardPile s)))
           in if Some (suit crd) = currentSuit s then Inr True
              else (case topCard of
                      None \<Rightarrow> Inl TypeError
                    | Some t \<Rightarrow> Inr (rank crd = rank t)))"

subsection \<open>\<^verbatim>\<open>drawCard\<close>\<close>

definition other :: "Turn \<Rightarrow> Turn" where
  "other target = (if target = Player then Ai else Player)"

definition drawCard :: "game_state \<Rightarrow> Turn \<Rightarrow> effect" where
  "drawCard s target =
     (if length (deck s) = 0
      then \<lparr> updates = [SetMessage Msg_deck_empty, SetTurn (other target)],
             timers = [], raised = None \<rparr>
      else
        (let newDeck = butlast (deck s);
             drawnCard = last (deck s)
         in if target = Player
            then (case canPlay s drawnCard of
                    Inl e \<Rightarrow>
                      \<lparr> updates = [SetDeck newDeck, SetPlayerHand (playerHand s @ [drawnCard]),
                                   SetMessage Msg_you_drew],
                        timers = [], raised = Some e \<rparr>
                  | Inr playable \<Rightarrow>
                      \<lparr> updates = [SetDeck newDeck, SetPlayerHand (playerHand s @ [drawnCard]),
                                   SetMessage Msg_you_drew],
                        timers = (if \<not> playable then [(1000, CbSetTurn Ai)] else []),
                        raised = None \<rparr>)
            else \<lparr> updates = [SetDeck newDeck, SetAiHand (aiHand s @ [drawnCard]),
                                SetMessage Msg_ai_drew],
                   timers = [], raised = None \<rparr>))"

subsection \<open>\<^verbatim>\<open>playCard\<close>\<close>

text \<open>
  \<^verbatim>\<open>suitCounts\<close> is an object used as a dictionary: its keys are kept in the order of their
  first insertion, which is the order \<^verbatim>\<open>Object.keys\<close> lists them in.
\<close>

fun bump :: "(suit \<times> nat) list \<Rightarrow> suit \<Rightarrow> (suit \<times> nat) list" where
  "bump [] k = [(k, 1)]"
| "bump ((k', n) # kvs) k = (if k' = k then (k', n + 1) # kvs else (k', n) # bump kvs k)"

definition suitCounts :: "CardData list \<Rightarrow> (suit \<times> nat) list" where
  "suitCounts hand = foldl bump [] (map suit hand)"

text \<open>
  \<^verbatim>\<open>Object.keys(suitCounts).sort((a, b) => suitCounts[b] - suitCounts[a])[0] || Suit.SPADES\<close>.
  \<^verbatim>\<open>Array.prototype.sort\<close> is stable, as is \<^const>\<open>sort_key\<close>; the counts are sorted in
  descending order.
\<close>

definition bestSuit :: "CardData list \<Rightarrow> suit" where
  "bestSuit hand =
     (case sort_key (\<lambda>(k, n). - int n) (suitCounts hand) of
        [] \<Rightarrow> SPADES
      | (k, n) # rest \<Rightarrow> k)"

definition playCard :: "game_state \<Rightarrow> CardData \<Rightarrow> Turn \<Rightarrow> effect" where
  "playCard s crd target =
     \<lparr> updates =
         [if target = Player
          then SetPlayerHand (filter (\<lambda>c. card_id c \<noteq> card_id crd) (playerHand s))
          else SetAiHand (filter (\<lambda>c. card_id c \<noteq> card_id crd) (aiHand s)),
          SetDiscardPile (discardPile s @ [crd]),
          SetCurrentSuit (Some (suit crd))]
         @ (if rank crd = EIGHT
            then (if target = Player
                  then [SetShowSuitSelector True, SetMessage Msg_choose_suit]
                  else [SetCurrentSuit (Some (bestSuit (aiHand s))),
                        SetMessage (Msg_ai_chose (bestSuit (aiHand s)))])
            else [SetMessage (Msg_played target (rank crd) (suit crd))]),
       timers =
         (if rank crd = EIGHT
          then (if target = Player then [] else [(1500, CbCheckWinSetTurn s Player)])
          else [(1000, CbCheckWinSetTurn s (other target))]),
       raised = None \<rparr>"

subsection \<open>The opponent's turn\<close>

text \<open>\<^verbatim>\<open>aiHand.filter(canPlay)\<close>: the first call of \<^verbatim>\<open>canPlay\<close> that throws ends the filter.\<close>

fun filter_canPlay :: "game_state \<Rightarrow> CardData list \<Rightarrow> error + CardData list" where
  "filter_canPlay s [] = Inr []"
| "filter_canPlay s (c # cs) =
     (case canPlay s c of
        Inl e \<Rightarrow> Inl e
      | Inr b \<Rightarrow>
          (case filter_canPlay s cs of
             Inl e \<Rightarrow> Inl e
           | Inr r \<Rightarrow> Inr (if b then c # r else r)))"

text \<open>The body of the callback of lines 138 to 160, which runs 2000 ms after the effect.\<close>

definition aiTurn :: "game_state \<Rightarrow> effect" where
  "aiTurn s =
     (case filter_canPlay s (aiHand s) of
        Inl e \<Rightarrow> \<lparr> updates = [], timers = [], raised = Some e \<rparr>
      | Inr playableCards \<Rightarrow>
          if length playableCards > 0
          then (let nonEights = filter (\<lambda>c. rank c \<noteq> EIGHT) playableCards;
                    cardToPlay = (if length nonEights > 0 then hd nonEights else hd playableCards);
                    e = playCard s cardToPlay Ai
                in e\<lparr> updates := updates e @ [SetIsAiThinking False] \<rparr>)
          else if length (deck s) > 0
          then (let e = drawCard s Ai
                in e\<lparr> updates := updates e @ [SetIsAiThinking False],
                      timers := timers e @ [(1000, CbSetTurn Player)] \<rparr>)
          else \<lparr> updates = [SetMessage Msg_ai_no_moves, SetTurn Player, SetIsAiThinking False],
                 timers = [], raised = None \<rparr>)"

text \<open>The body of the effect of lines 135 to 162, run in a render whose state is \<open>s\<close>.\<close>

definition aiEffect :: "game_state \<Rightarrow> effect" where
  "aiEffect s =
     (if turn s = Ai \<and> status s = Playing \<and> \<not> isAiThinking s
      then \<lparr> updates = [SetIsAiThinking True], timers = [(2000, CbAiTurn s)], raised = None \<rparr>
      else \<lparr> updates = [], timers = [], raised = None \<rparr>)"

definition handleSuitSelect :: "game_state \<Rightarrow> suit \<Rightarrow> effect" where
  "handleSuitSelect s su =
     \<lparr> updates = [SetCurrentSuit (Some su), SetShowSuitSelector False,
                  SetMessage (Msg_you_chose su)],
       timers = [(1000, CbCheckWinSetTurn s Ai)], raised = None \<rparr>"

text \<open>Running a timer's callback.\<close>

definition run_callback :: "callback \<Rightarrow> effect" where
  "run_callback cb =
     (case cb of
        CbSetTurn t \<Rightarrow> \<lparr> updates = [SetTurn t], timers = [], raised = None \<rparr>
      | CbCheckWinSetTurn s t \<Rightarrow>
          (case checkWin s of
             (us, won) \<Rightarrow>
               \<lparr> updates = us @ (if \<not> won then [SetTurn t] else []), timers = [],
                 raised = None \<rparr>)
      | CbAiTurn s \<Rightarrow> aiTurn s)"


section \<open>The component as an event system\<close>

text \<open>
  The component reacts to clicks and to timers. A world is the clock (in milliseconds), the
  state of the last render, and the timers that \<^verbatim>\<open>setTimeout\<close> has started and that have
  not fired yet, each with the time it is due at, in the order they were started in.
\<close>

record world =
  now :: nat
  st :: game_state
  pending :: "(nat \<times> callback) list"

definition initial_world :: world where
  "initial_world = \<lparr> now = 0, st = initial_state, pending = [] \<rparr>"

text \<open>
  The dependency list of the effect is
  \<^verbatim>\<open>[turn, aiHand, status, discardPile, currentSuit, deck.length]\<close>. The arrays are compared
  by identity, and every call of \<^verbatim>\<open>setAiHand\<close> and \<^verbatim>\<open>setDiscardPile\<close> in \<^verbatim>\<open>App.tsx\<close> passes a
  fresh array.
\<close>

fun sets_aiHand :: "update \<Rightarrow> bool" where
  "sets_aiHand (SetAiHand v) = True"
| "sets_aiHand u = False"

fun sets_discardPile :: "update \<Rightarrow> bool" where
  "sets_discardPile (SetDiscardPile v) = True"
| "sets_discardPile u = False"

definition deps_changed :: "game_state \<Rightarrow> update list \<Rightarrow> game_state \<Rightarrow> bool" where
  "deps_changed s us s' \<longleftrightarrow>
     turn s' \<noteq> turn s \<or> list_ex sets_aiHand us \<or> status s' \<noteq> status s
     \<or> list_ex sets_discardPile us \<or> currentSuit s' \<noteq> currentSuit s
     \<or> length (deck s') \<noteq> length (deck s)"

definition start_timers :: "nat \<Rightarrow> (nat \<times> callback) list \<Rightarrow> (nat \<times> callback) list" where
  "start_timers t ts = map (\<lambda>(delay, cb). (t + delay, cb)) ts"

text \<open>
  The setter calls one click handler or one timer callback makes are applied together, in
  the order they were made in, to the state that is current then; the component renders
  once; the effect runs in the new render when one of its dependencies has changed. The
  functions \<^verbatim>\<open>canPlay\<close>, \<^verbatim>\<open>drawCard\<close>, \<^verbatim>\<open>playCard\<close> and \<^verbatim>\<open>checkWin\<close> a callback calls are those of
  the render that created the callback, and read the state of that render: a click handler
  is of the last render, a timer's callback of the render that started the timer.
\<close>

definition commit :: "world \<Rightarrow> effect \<Rightarrow> world" where
  "commit w e =
     (let s' = apply_updates (updates e) (st w);
          eff = (if deps_changed (st w) (updates e) s' then aiEffect s'
                 else \<lparr> updates = [], timers = [], raised = None \<rparr>)
      in \<lparr> now = now w,
           st = apply_updates (updates eff) s',
           pending = pending w @ start_timers (now w) (timers e)
                     @ start_timers (now w) (timers eff) \<rparr>)"

text \<open>
  What the user can do: load the page or click a restart button (\<^verbatim>\<open>initGame\<close> then runs with
  a freshly shuffled deck), click a card of the player's hand, click the draw pile, click
  a suit of the suit selector. A click that the component does not accept does nothing:
  \<^item> a card is clickable when \<^verbatim>\<open>isPlayable\<close> holds (line 306, and \<^verbatim>\<open>Card.tsx\<close> line 42);
  \<^item> the draw pile draws when \<^verbatim>\<open>turn === 'player' && status === 'playing'\<close> (line 225);
  \<^item> the suit selector is there when \<^verbatim>\<open>showSuitSelector\<close> holds (line 318).
\<close>

datatype action =
  Setup "CardData list"
  | ClickCard CardData
  | ClickDraw
  | SelectSuit suit

definition handle :: "world \<Rightarrow> action \<Rightarrow> world" where
  "handle w a =
     (case a of
        Setup shuffled \<Rightarrow> commit w (initGame shuffled)
      | ClickCard c \<Rightarrow>
          if c \<in> set (playerHand (st w)) \<and> turn (st w) = Player \<and> status (st w) = Playing
             \<and> canPlay (st w) c = Inr True
          then commit w (playCard (st w) c Player) else w
      | ClickDraw \<Rightarrow>
          if turn (st w) = Player \<and> status (st w) = Playing
          then commit w (drawCard (st w) Player) else w
      | SelectSuit su \<Rightarrow>
          if showSuitSelector (st w) then commit w (handleSuitSelect (st w) su) else w)"

text \<open>The timer that fires next: the one due first, and of those the one started first.\<close>

fun next_timer ::
  "(nat \<times> callback) list \<Rightarrow> ((nat \<times> callback) \<times> (nat \<times> callback) list) option" where
  "next_timer [] = None"
| "next_timer (t # ts) =
     (case next_timer ts of
        None \<Rightarrow> Some (t, [])
      | Some (m, rest) \<Rightarrow> if fst t \<le> fst m then Some (t, ts) else Some (m, t # rest))"

text \<open>
  An event is a user action at a given time, or the next timer firing. A user action at
  time \<open>t\<close> is possible when no timer is due at \<open>t\<close> or before.
\<close>

datatype event = User nat action | Timer

definition step :: "world \<Rightarrow> event \<Rightarrow> world option" where
  "step w ev =
     (case ev of
        User t a \<Rightarrow>
          if now w \<le> t \<and> list_all (\<lambda>(due, cb). t < due) (pending w)
          then Some (handle (w\<lparr> now := t \<rparr>) a) else None
      | Timer \<Rightarrow>
          (case next_timer (pending w) of
             None \<Rightarrow> None
           | Some ((due, cb), rest) \<Rightarrow>
               Some (commit (w\<lparr> now := max (now w) due, pending := rest \<rparr>) (run_callback cb))))"

fun run :: "world \<Rightarrow> event list \<Rightarrow> world option" where
  "run w [] = Some w"
| "run w (ev # evs) = (case step w ev of None \<Rightarrow> None | Some w' \<Rightarrow> run w' evs)"


section \<open>Decks, invariants and example data\<close>

text \<open>
  Modelled from the spec: the value of \<^verbatim>\<open>shuffleDeck(createDeck())\<close> (\<^verbatim>\<open>src/constants.ts\<close>).
  Section 4.2 of the specification: the deck has exactly 52 cards, one per pair of suit
  and rank, each with a unique identifier, and a shuffle is a reordering of the same
  cards.
\<close>

definition standard_deck :: "CardData list \<Rightarrow> bool" where
  "standard_deck d \<longleftrightarrow>
     length d = 52 \<and> distinct (map (\<lambda>c. (suit c, rank c)) d) \<and> distinct (map card_id d)"

text \<open>
  The invariant of the event system: no setter call empties the discard pile, and the
  state an opponent's decision has closed over has a discard pile that is not empty.
\<close>

fun keeps_pile :: "update \<Rightarrow> bool" where
  "keeps_pile (SetDiscardPile v) = (v \<noteq> [])"
| "keeps_pile u = True"

fun cb_ok :: "callback \<Rightarrow> bool" where
  "cb_ok (CbAiTurn s) = (discardPile s \<noteq> [])"
| "cb_ok cb = True"

definition effect_ok :: "effect \<Rightarrow> bool" where
  "effect_ok e \<longleftrightarrow>
     list_all keeps_pile (updates e) \<and> list_all (\<lambda>(delay, cb). cb_ok cb) (timers e)"

definition world_ok :: "world \<Rightarrow> bool" where
  "world_ok w \<longleftrightarrow>
     discardPile (st w) \<noteq> [] \<and> list_all (\<lambda>(due, cb). cb_ok cb) (pending w)"

text \<open>The cards of a state, with their multiplicities.\<close>

definition cards :: "game_state \<Rightarrow> CardData multiset" where
  "cards s = mset (deck s) + mset (playerHand s) + mset (aiHand s) + mset (discardPile s)"

text \<open>Cards and decks for the examples; the identifiers are chosen here.\<close>

definition suit_text :: "suit \<Rightarrow> string" where
  "suit_text su =
     (case su of HEARTS \<Rightarrow> ''hearts'' | DIAMONDS \<Rightarrow> ''diamonds''
      | CLUBS \<Rightarrow> ''clubs'' | SPADES \<Rightarrow> ''spades'')"

definition rank_text :: "rank \<Rightarrow> string" where
  "rank_text r =
     (case r of ACE \<Rightarrow> ''A'' | TWO \<Rightarrow> ''2'' | THREE \<Rightarrow> ''3'' | FOUR \<Rightarrow> ''4''
      | FIVE \<Rightarrow> ''5'' | SIX \<Rightarrow> ''6'' | SEVEN \<Rightarrow> ''7'' | EIGHT \<Rightarrow> ''8'' | NINE \<Rightarrow> ''9''
      | TEN \<Rightarrow> ''10'' | JACK \<Rightarrow> ''J'' | QUEEN \<Rightarrow> ''Q'' | KING \<Rightarrow> ''K'')"

definition mk_card :: "rank \<Rightarrow> suit \<Rightarrow> CardData" where
  "mk_card r su = \<lparr> card_id = rank_text r @ ''-'' @ suit_text su, suit = su, rank = r \<rparr>"

definition ordered_deck :: "CardData list" where
  "ordered_deck =
     concat (map (\<lambda>su. map (\<lambda>r. mk_card r su)
        [ACE, TWO, THREE, FOUR, FIVE, SIX, SEVEN, EIGHT, NINE, TEN, JACK, QUEEN, KING])
        [HEARTS, DIAMONDS, CLUBS, SPADES])"

text \<open>
  The ordered deck cut after four cards: the seventeenth card is the Eight of diamonds,
  the eighteenth the Nine of diamonds.
\<close>

definition cut_deck :: "CardData list" where
  "cut_deck = drop 4 ordered_deck @ take 4 ordered_deck"

text \<open>
  The ordered deck with the Eights of hearts and of spades exchanged. The player is dealt
  the Ace to Seven of hearts and the Eight of spades, the opponent the Nine to King of
  hearts and the Ace to Three of diamonds; the Four of diamonds is the first discard and
  the King of spades is the last card of the deck.
\<close>

definition example_deck :: "CardData list" where
  "example_deck = (ordered_deck [7 := mk_card EIGHT SPADES]) [46 := mk_card EIGHT HEARTS]"

text \<open>A table whose top discard is the Seven of hearts and whose active suit is diamonds.\<close>

definition table_7H_diamonds :: game_state where
  "table_7H_diamonds =
     initial_state\<lparr> discardPile := [mk_card SEVEN HEARTS], currentSuit := Some DIAMONDS \<rparr>"

text \<open>
  Three tables on which it is the opponent's turn, the top discard is the King of diamonds
  and the active suit is diamonds; they differ in the opponent's hand.
\<close>

definition ai_table :: "CardData list \<Rightarrow> game_state" where
  "ai_table hand =
     initial_state\<lparr> discardPile := [mk_card KING DIAMONDS], currentSuit := Some DIAMONDS,
                    aiHand := hand, turn := Ai \<rparr>"

definition ai_holds_8S_5H :: game_state where
  "ai_holds_8S_5H = ai_table [mk_card EIGHT SPADES, mk_card FIVE HEARTS]"

definition ai_holds_8H :: game_state where
  "ai_holds_8H = ai_table [mk_card EIGHT HEARTS]"

definition ai_holds_8S_5H_6H :: game_state where
  "ai_holds_8S_5H_6H =
     ai_table [mk_card EIGHT SPADES, mk_card FIVE HEARTS, mk_card SIX HEARTS]"

text \<open>
  The player plays the Four of hearts and, 100 ms later, the Eight of spades. The first
  play's timer hands the turn to the opponent at 1000 ms, and the opponent, who has
  neither a spade nor an Eight, draws the King of spades at 3000 ms; the effect runs again
  and starts a second decision, due at 5000 ms, which closes over the table of 3000 ms. The
  player chooses hearts at 3200 ms, has the turn back at 4000 ms and plays the Ace of
  hearts at 4100 ms. At 5000 ms the second decision plays the King of spades.
\<close>

definition lost_card_trace :: "event list" where
  "lost_card_trace =
     [User 0 (Setup example_deck),
      User 0 (ClickCard (mk_card FOUR HEARTS)),
      User 100 (ClickCard (mk_card EIGHT SPADES)),
      Timer, Timer,
      User 3200 (SelectSuit HEARTS),
      Timer,
      User 4100 (ClickCard (mk_card ACE HEARTS)),
      Timer, Timer]"

text \<open>
  The player plays the Four, Ace, Two, Three, Five, Six and Seven of hearts and the Eight
  of spades, 100 ms apart. The first play's timer hands the turn to the opponent at
  1000 ms and the effect starts the opponent's decision, due at 3000 ms. The player
  chooses hearts at 1700 ms, and that choice's timer finds the player's hand empty at
  2700 ms.
\<close>

definition quick_win_trace :: "event list" where
  "quick_win_trace =
     [User 0 (Setup example_deck),
      User 0 (ClickCard (mk_card FOUR HEARTS)),
      User 100 (ClickCard (mk_card ACE HEARTS)),
      User 200 (ClickCard (mk_card TWO HEARTS)),
      User 300 (ClickCard (mk_card THREE HEARTS)),
      User 400 (ClickCard (mk_card FIVE HEARTS)),
      User 500 (ClickCard (mk_card SIX HEARTS)),
      User 600 (ClickCard (mk_card SEVEN HEARTS)),
      User 700 (ClickCard (mk_card EIGHT SPADES)),
      Timer, Timer, Timer, Timer, Timer, Timer, Timer,
      User 1700 (SelectSuit HEARTS),
      Timer]"

text \<open>
  The player plays the Four of hearts and the Eight of spades and chooses spades, all
  within 200 ms, and then does nothing. The opponent has the turn at 1000 ms and its
  decision runs at 3000 ms.
\<close>

definition redraw_trace :: "event list" where
  "redraw_trace =
     [User 0 (Setup example_deck),
      User 0 (ClickCard (mk_card FOUR HEARTS)),
      User 100 (ClickCard (mk_card EIGHT SPADES)),
      User 200 (SelectSuit SPADES),
      Timer, Timer, Timer, Timer, Timer]"


section \<open>The legality rule\<close>

lemma canPlay_TypeError:
  "canPlay s c = Inl TypeError \<longleftrightarrow>
     rank c \<noteq> EIGHT \<and> Some (suit c) \<noteq> currentSuit s \<and> discardPile s = []"
  by (simp add: canPlay_def Let_def)

lemma canPlay_nonempty:
  "discardPile s \<noteq> [] \<Longrightarrow>
   canPlay s c =
     Inr (rank c = EIGHT \<or> Some (suit c) = currentSuit s \<or> rank c = rank (last (discardPile s)))"
  by (simp add: canPlay_def Let_def)

text \<open>
  Claim C1. On a table with a top discard, a card is playable exactly when its rank is
  Eight, or its suit is the active suit, or its rank is the rank of the top discard. With
  diamonds active and a Seven on top, the Seven of clubs and the King of diamonds are
  playable, the King of clubs is not, and every Eight is.
\<close>

theorem canPlay_legality:
  assumes "discardPile s \<noteq> []"
  shows "canPlay s c =
           Inr (rank c = EIGHT \<or> Some (suit c) = currentSuit s
                \<or> rank c = rank (last (discardPile s)))
       \<and> (currentSuit s = Some DIAMONDS \<and> rank (last (discardPile s)) = SEVEN \<longrightarrow>
            canPlay s \<lparr>card_id = i1, suit = CLUBS, rank = SEVEN\<rparr> = Inr True
          \<and> canPlay s \<lparr>card_id = i2, suit = DIAMONDS, rank = KING\<rparr> = Inr True
          \<and> canPlay s \<lparr>card_id = i3, suit = CLUBS, rank = KING\<rparr> = Inr False
          \<and> canPlay s \<lparr>card_id = i4, suit = su, rank = EIGHT\<rparr> = Inr True)"
  using assms by (simp add: canPlay_def Let_def)

theorem canPlay_legality_witness:
  "canPlay table_7H_diamonds (mk_card SEVEN CLUBS) = Inr True
   \<and> canPlay table_7H_diamonds (mk_card KING DIAMONDS) = Inr True
   \<and> canPlay table_7H_diamonds (mk_card KING CLUBS) = Inr False
   \<and> canPlay table_7H_diamonds (mk_card EIGHT SPADES) = Inr True"
  using canPlay_legality [of table_7H_diamonds "mk_card KING CLUBS"
      "card_id (mk_card SEVEN CLUBS)" "card_id (mk_card KING DIAMONDS)"
      "card_id (mk_card KING CLUBS)" "card_id (mk_card EIGHT SPADES)" SPADES]
  by (simp add: table_7H_diamonds_def initial_state_def mk_card_def)

section \<open>Setup\<close>

lemma firstDiscardIndex_Inr:
  "firstDiscardIndex xs i = Inr k \<Longrightarrow>
   i \<le> k \<and> k < length xs \<and> rank (xs ! k) \<noteq> EIGHT
   \<and> (\<forall>j. i \<le> j \<and> j < k \<longrightarrow> rank (xs ! j) = EIGHT)"
proof (induction xs i rule: firstDiscardIndex.induct)
  case (1 fullDeck i)
  show ?case
  proof (cases "i < length fullDeck \<and> rank (fullDeck ! i) = EIGHT")
    case True
    then have "firstDiscardIndex fullDeck (Suc i) = Inr k"
      using "1.prems" by (simp add: firstDiscardIndex.simps [of fullDeck i])
    with True "1.IH"
    have h: "Suc i \<le> k \<and> k < length fullDeck \<and> rank (fullDeck ! k) \<noteq> EIGHT
        \<and> (\<forall>j. Suc i \<le> j \<and> j < k \<longrightarrow> rank (fullDeck ! j) = EIGHT)"
      by simp
    have "rank (fullDeck ! j) = EIGHT" if "i \<le> j \<and> j < k" for j
      using that h True by (cases "j = i") auto
    with h show ?thesis by auto
  next
    case False
    then show ?thesis
      using "1.prems"
      by (auto simp add: firstDiscardIndex.simps [of fullDeck i] split: if_splits)
  qed
qed

lemma firstDiscardIndex_total:
  "i \<le> j \<Longrightarrow> j < length xs \<Longrightarrow> rank (xs ! j) \<noteq> EIGHT \<Longrightarrow>
   \<exists>k. firstDiscardIndex xs i = Inr k"
proof (induction xs i rule: firstDiscardIndex.induct)
  case (1 fullDeck i)
  show ?case
  proof (cases "rank (fullDeck ! i) = EIGHT")
    case True
    with "1.prems" have "Suc i \<le> j" by (cases "i = j") auto
    with True "1.prems" "1.IH" have "\<exists>k. firstDiscardIndex fullDeck (Suc i) = Inr k"
      by simp
    with True "1.prems" show ?thesis
      by (simp add: firstDiscardIndex.simps [of fullDeck i])
  next
    case False
    with "1.prems" show ?thesis
      by (simp add: firstDiscardIndex.simps [of fullDeck i])
  qed
qed

lemma UNIV_suit: "(UNIV :: suit set) = {HEARTS, DIAMONDS, CLUBS, SPADES}"
  by (auto intro: suit.exhaust)

text \<open>Cards that are all Eights and differ in suit or rank are at most four.\<close>

lemma eights_at_most_four:
  assumes "distinct (map (\<lambda>c. (suit c, rank c)) xs)" and "\<forall>c \<in> set xs. rank c = EIGHT"
  shows "length xs \<le> 4"
proof -
  have d: "distinct xs" and inj: "inj_on (\<lambda>c. (suit c, rank c)) (set xs)"
    using assms(1) by (simp_all add: distinct_map)
  have "inj_on suit (set xs)"
  proof (rule inj_onI)
    fix a b
    assume "a \<in> set xs" "b \<in> set xs" "suit a = suit b"
    with assms(2) have "(suit a, rank a) = (suit b, rank b)" by simp
    with inj \<open>a \<in> set xs\<close> \<open>b \<in> set xs\<close> show "a = b"
      by (auto dest: inj_onD)
  qed
  with d have "distinct (map suit xs)"
    by (simp add: distinct_map)
  then have "length xs = card (set (map suit xs))"
    by (metis distinct_card length_map)
  also have "\<dots> \<le> card (UNIV :: suit set)"
  proof (rule card_mono)
    show "finite (UNIV :: suit set)" by (simp add: UNIV_suit)
    show "set (map suit xs) \<subseteq> UNIV" by (rule subset_UNIV)
  qed
  also have "\<dots> = 4"
    by (simp add: UNIV_suit)
  finally show ?thesis .
qed

lemma standard_deck_has_discard:
  assumes "standard_deck d"
  shows "\<exists>j < length (drop 16 d). rank (drop 16 d ! j) \<noteq> EIGHT"
proof (rule ccontr)
  assume "\<not> ?thesis"
  then have all: "\<forall>c \<in> set (drop 16 d). rank c = EIGHT"
    by (auto simp add: in_set_conv_nth simp del: nth_drop length_drop)
  have "distinct (map (\<lambda>c. (suit c, rank c)) (drop 16 d))"
    using assms by (simp add: standard_deck_def drop_map [symmetric] distinct_drop)
  with all have "length (drop 16 d) \<le> 4" by (rule eights_at_most_four [rotated])
  with assms show False by (simp add: standard_deck_def)
qed

lemma cut_deck_standard: "standard_deck cut_deck"
  by (simp add: standard_deck_def cut_deck_def ordered_deck_def mk_card_def suit_text_def
      rank_text_def)

lemma cut_deck_index: "firstDiscardIndex (drop 16 cut_deck) 0 = Inr 1"
  by (simp add: cut_deck_def ordered_deck_def mk_card_def firstDiscardIndex.simps)

text \<open>
  Claim C2. \<^verbatim>\<open>initGame\<close> on a shuffled standard deck, whatever the state before: the scan for
  the first discard ends at an index \<open>i\<close> of the deck that remains after the two deals,
  the card there is not an Eight and every card before it is one; the player holds the
  first eight cards, the opponent the next eight, the discard pile is that card alone, the
  deck is the remainder without it, the active suit is its suit, the turn is the
  player's and the status is playing.
\<close>

theorem initGame_setup:
  assumes "standard_deck d"
  shows "\<exists>i. firstDiscardIndex (drop 16 d) 0 = Inr i
           \<and> i < length (drop 16 d)
           \<and> rank (drop 16 d ! i) \<noteq> EIGHT
           \<and> (\<forall>j < i. rank (drop 16 d ! j) = EIGHT)
           \<and> raised (initGame d) = None
           \<and> playerHand (run_effect (initGame d) s) = take 8 d
           \<and> aiHand (run_effect (initGame d) s) = take 8 (drop 8 d)
           \<and> discardPile (run_effect (initGame d) s) = [drop 16 d ! i]
           \<and> deck (run_effect (initGame d) s) = take i (drop 16 d) @ drop (Suc i) (drop 16 d)
           \<and> currentSuit (run_effect (initGame d) s) = Some (suit (drop 16 d ! i))
           \<and> turn (run_effect (initGame d) s) = Player
           \<and> status (run_effect (initGame d) s) = Playing"
proof -
  from standard_deck_has_discard [OF assms]
  obtain j where j: "j < length (drop 16 d)" "rank (drop 16 d ! j) \<noteq> EIGHT"
    by blast
  then obtain i where i: "firstDiscardIndex (drop 16 d) 0 = Inr i"
    using firstDiscardIndex_total [of 0 j "drop 16 d"] by auto
  note p = firstDiscardIndex_Inr [OF i]
  have "drop 8 (drop 8 d) = drop 16 d" by simp
  with i p show ?thesis
    by (simp add: initGame_def run_effect_def Let_def del: nth_drop length_drop drop_drop)
qed

theorem initGame_setup_witness:
  "standard_deck cut_deck
   \<and> discardPile (run_effect (initGame cut_deck) initial_state) = [mk_card NINE DIAMONDS]
   \<and> currentSuit (run_effect (initGame cut_deck) initial_state) = Some DIAMONDS
   \<and> hd (deck (run_effect (initGame cut_deck) initial_state)) = mk_card EIGHT DIAMONDS
   \<and> length (deck (run_effect (initGame cut_deck) initial_state)) = 35
   \<and> playerHand (run_effect (initGame cut_deck) initial_state) = take 8 cut_deck
   \<and> aiHand (run_effect (initGame cut_deck) initial_state) = take 8 (drop 8 cut_deck)"
proof -
  from initGame_setup [OF cut_deck_standard, of initial_state]
  obtain i where i: "firstDiscardIndex (drop 16 cut_deck) 0 = Inr i"
    and r: "discardPile (run_effect (initGame cut_deck) initial_state) = [drop 16 cut_deck ! i]"
      "deck (run_effect (initGame cut_deck) initial_state)
         = take i (drop 16 cut_deck) @ drop (Suc i) (drop 16 cut_deck)"
      "currentSuit (run_effect (initGame cut_deck) initial_state)
         = Some (suit (drop 16 cut_deck ! i))"
      "playerHand (run_effect (initGame cut_deck) initial_state) = take 8 cut_deck"
      "aiHand (run_effect (initGame cut_deck) initial_state) = take 8 (drop 8 cut_deck)"
    by blast
  from i have "i = 1" by (simp add: cut_deck_index)
  with r cut_deck_standard show ?thesis
    by (simp add: cut_deck_def ordered_deck_def mk_card_def)
qed


section \<open>Drawing\<close>

text \<open>
  Claim C4. The player draws from a deck that is not empty, on a table with a top discard:
  the last card of the deck moves to the player's hand and the turn is not changed by the
  draw itself. When the drawn card is not playable on the table it was drawn at, one timer
  is started, of 1000 ms, whose callback gives the turn to the opponent; when it is
  playable no timer is started, so the turn stays where it is.
\<close>

theorem drawCard_player_turn:
  assumes "deck s \<noteq> []" and "discardPile s \<noteq> []"
  shows "raised (drawCard s Player) = None
       \<and> deck (run_effect (drawCard s Player) s) = butlast (deck s)
       \<and> playerHand (run_effect (drawCard s Player) s) = playerHand s @ [last (deck s)]
       \<and> turn (run_effect (drawCard s Player) s) = turn s
       \<and> (canPlay s (last (deck s)) = Inr False \<longrightarrow>
            timers (drawCard s Player) = [(1000, CbSetTurn Ai)])
       \<and> (canPlay s (last (deck s)) = Inr True \<longrightarrow> timers (drawCard s Player) = [])
       \<and> (canPlay s (last (deck s)) = Inr False \<or> canPlay s (last (deck s)) = Inr True)
       \<and> turn (run_effect (run_callback (CbSetTurn Ai)) s') = Ai"
  using assms
  by (auto simp add: drawCard_def run_effect_def Let_def canPlay_def run_callback_def)

theorem drawCard_player_turn_witness:
  "timers (drawCard (table_7H_diamonds\<lparr> deck := [mk_card KING CLUBS] \<rparr>) Player)
     = [(1000, CbSetTurn Ai)]
   \<and> timers (drawCard (table_7H_diamonds\<lparr> deck := [mk_card KING DIAMONDS] \<rparr>) Player) = []
   \<and> turn (run_effect (drawCard (table_7H_diamonds\<lparr> deck := [mk_card KING DIAMONDS] \<rparr>) Player)
        (table_7H_diamonds\<lparr> deck := [mk_card KING DIAMONDS] \<rparr>)) = Player"
  using drawCard_player_turn [of "table_7H_diamonds\<lparr> deck := [mk_card KING CLUBS] \<rparr>"]
    drawCard_player_turn [of "table_7H_diamonds\<lparr> deck := [mk_card KING DIAMONDS] \<rparr>"]
  by (simp add: table_7H_diamonds_def initial_state_def mk_card_def canPlay_def)

text \<open>
  Claim C5. A draw for either side from an empty deck: both hands, the deck and the
  discard pile stay as they are, the message is the deck-empty one, the turn goes to the
  other side, no timer is started and nothing is thrown.
\<close>

theorem drawCard_empty_deck:
  assumes "deck s = []"
  shows "raised (drawCard s target) = None
       \<and> timers (drawCard s target) = []
       \<and> playerHand (run_effect (drawCard s target) s) = playerHand s
       \<and> aiHand (run_effect (drawCard s target) s) = aiHand s
       \<and> deck (run_effect (drawCard s target) s) = []
       \<and> discardPile (run_effect (drawCard s target) s) = discardPile s
       \<and> message (run_effect (drawCard s target) s) = Msg_deck_empty
       \<and> turn (run_effect (drawCard s target) s) = (case target of Player \<Rightarrow> Ai | Ai \<Rightarrow> Player)"
  using assms by (cases target) (simp_all add: drawCard_def run_effect_def other_def)

theorem drawCard_empty_deck_witness:
  "turn (run_effect (drawCard table_7H_diamonds Player) table_7H_diamonds) = Ai
   \<and> turn (run_effect (drawCard table_7H_diamonds Ai) table_7H_diamonds) = Player
   \<and> message (run_effect (drawCard table_7H_diamonds Ai) table_7H_diamonds) = Msg_deck_empty
   \<and> discardPile (run_effect (drawCard table_7H_diamonds Ai) table_7H_diamonds)
       = [mk_card SEVEN HEARTS]"
  using drawCard_empty_deck [of table_7H_diamonds Player]
    drawCard_empty_deck [of table_7H_diamonds Ai]
  by (simp add: table_7H_diamonds_def initial_state_def)

section \<open>Playing\<close>

lemma filter_other_ids:
  "card_id crd \<notin> card_id ` set xs \<Longrightarrow> filter (\<lambda>c. card_id c \<noteq> card_id crd) xs = xs"
  by (induction xs) auto

text \<open>
  Claim C3. The opponent holds the Eight of spades and the Five of hearts, and plays the
  Eight: \<^verbatim>\<open>playCard\<close> counts the suits of the hand it closed over, in which the Eight still
  is, so spades and hearts tie and spades, met first, is chosen; hearts is the only suit
  of the hand that remains. When the Eight of hearts is the opponent's only card, hearts
  is chosen, and not the default of spades, although the hand that remains is empty.
\<close>

theorem playCard_ai_eight_counts_played_card:
  "aiTurn ai_holds_8S_5H =
     (playCard ai_holds_8S_5H (mk_card EIGHT SPADES) Ai)
       \<lparr> updates := updates (playCard ai_holds_8S_5H (mk_card EIGHT SPADES) Ai)
                    @ [SetIsAiThinking False] \<rparr>
   \<and> aiHand (run_effect (aiTurn ai_holds_8S_5H) ai_holds_8S_5H) = [mk_card FIVE HEARTS]
   \<and> currentSuit (run_effect (aiTurn ai_holds_8S_5H) ai_holds_8S_5H) = Some SPADES
   \<and> bestSuit [mk_card FIVE HEARTS] = HEARTS
   \<and> aiHand (run_effect (aiTurn ai_holds_8H) ai_holds_8H) = []
   \<and> currentSuit (run_effect (aiTurn ai_holds_8H) ai_holds_8H) = Some HEARTS
   \<and> bestSuit [] = SPADES"
  by (simp add: aiTurn_def playCard_def run_effect_def canPlay_def Let_def ai_holds_8S_5H_def
      ai_holds_8H_def ai_table_def initial_state_def mk_card_def bestSuit_def suitCounts_def
      suit_text_def rank_text_def)

text \<open>
  Claim C10, as stated, fails in two ways. The opponent holds the Eight of spades and the
  Five and Six of hearts and plays the Eight: the active suit after the play is hearts,
  the opponent's choice, and not the suit of the card. And \<^verbatim>\<open>playCard\<close> sets the discard pile
  to the pile it has read followed by the card: when the pile has grown since (here by the
  King of hearts), the card is not appended to it.
\<close>

theorem playCard_counterexample:
  "suit (mk_card EIGHT SPADES) = SPADES
   \<and> currentSuit (run_effect (playCard ai_holds_8S_5H_6H (mk_card EIGHT SPADES) Ai)
        ai_holds_8S_5H_6H) = Some HEARTS
   \<and> discardPile
        (ai_holds_8S_5H_6H\<lparr> discardPile := [mk_card KING DIAMONDS, mk_card KING HEARTS] \<rparr>)
       = [mk_card KING DIAMONDS, mk_card KING HEARTS]
   \<and> discardPile (run_effect (playCard ai_holds_8S_5H_6H (mk_card FIVE HEARTS) Ai)
        (ai_holds_8S_5H_6H\<lparr> discardPile := [mk_card KING DIAMONDS, mk_card KING HEARTS] \<rparr>))
       = [mk_card KING DIAMONDS, mk_card FIVE HEARTS]"
  by (simp add: playCard_def run_effect_def ai_holds_8S_5H_6H_def ai_table_def
      initial_state_def mk_card_def bestSuit_def suitCounts_def)

text \<open>
  Claim C10, amended. \<^verbatim>\<open>playCard\<close> checks nothing. Let \<open>s\<close> be the state it has read and \<open>s0\<close>
  the current state, with the same hands and discard pile. For every card and side,
  whatever the status, the turn and the legality of the card: nothing is thrown, the card
  is appended to the discard pile, the deck, the status and the turn stay as they are, the
  cards with the identifier of the played card leave the acting side's hand and the other
  hand is unchanged. The active suit becomes the suit of the card unless the opponent
  plays an Eight; it is a suit in every case. A hand the card is not in is left unchanged:
  a card is in a hand when the hand has a card with its identifier, which is membership as
  soon as the identifier tells the card from the cards of the hand. A click on a card is
  dropped unless the card is in the player's hand, the turn is the player's, the status is
  playing and the card is playable.
\<close>

theorem playCard_no_precondition:
  assumes "discardPile s0 = discardPile s"
    and "playerHand s0 = playerHand s"
    and "aiHand s0 = aiHand s"
  shows "raised (playCard s crd target) = None
   \<and> discardPile (run_effect (playCard s crd target) s0) = discardPile s0 @ [crd]
   \<and> deck (run_effect (playCard s crd target) s0) = deck s0
   \<and> status (run_effect (playCard s crd target) s0) = status s0
   \<and> turn (run_effect (playCard s crd target) s0) = turn s0
   \<and> (\<not> (rank crd = EIGHT \<and> target = Ai) \<longrightarrow>
        currentSuit (run_effect (playCard s crd target) s0) = Some (suit crd))
   \<and> currentSuit (run_effect (playCard s crd target) s0) \<noteq> None
   \<and> playerHand (run_effect (playCard s crd target) s0) =
       (if target = Player then filter (\<lambda>c. card_id c \<noteq> card_id crd) (playerHand s0)
        else playerHand s0)
   \<and> aiHand (run_effect (playCard s crd target) s0) =
       (if target = Ai then filter (\<lambda>c. card_id c \<noteq> card_id crd) (aiHand s0)
        else aiHand s0)
   \<and> (card_id crd \<notin> card_id ` set (playerHand s0) \<longrightarrow>
        playerHand (run_effect (playCard s crd target) s0) = playerHand s0)
   \<and> (card_id crd \<notin> card_id ` set (aiHand s0) \<longrightarrow>
        aiHand (run_effect (playCard s crd target) s0) = aiHand s0)
   \<and> (crd \<notin> set (playerHand s0)
        \<and> (\<forall>c \<in> set (playerHand s0). card_id c = card_id crd \<longrightarrow> c = crd) \<longrightarrow>
        playerHand (run_effect (playCard s crd target) s0) = playerHand s0)
   \<and> (crd \<notin> set (aiHand s0)
        \<and> (\<forall>c \<in> set (aiHand s0). card_id c = card_id crd \<longrightarrow> c = crd) \<longrightarrow>
        aiHand (run_effect (playCard s crd target) s0) = aiHand s0)
   \<and> (\<not> (crd \<in> set (playerHand (st w)) \<and> turn (st w) = Player \<and> status (st w) = Playing
           \<and> canPlay (st w) crd = Inr True) \<longrightarrow>
        handle w (ClickCard crd) = w)"
proof -
  have ids: "card_id crd \<notin> card_id ` set xs"
    if "crd \<notin> set xs" "\<forall>c \<in> set xs. card_id c = card_id crd \<longrightarrow> c = crd" for xs
    using that by auto
  have f: "filter (\<lambda>c. card_id c \<noteq> card_id crd) xs = xs"
    if "crd \<notin> set xs" "\<forall>c \<in> set xs. card_id c = card_id crd \<longrightarrow> c = crd" for xs
    using ids [OF that] by (rule filter_other_ids)
  have g: "\<not> (crd \<in> set (playerHand (st w)) \<and> turn (st w) = Player \<and> status (st w) = Playing
           \<and> canPlay (st w) crd = Inr True) \<longrightarrow> handle w (ClickCard crd) = w"
    by (simp add: handle_def)
  have main: "raised (playCard s crd target) = None
   \<and> discardPile (run_effect (playCard s crd target) s0) = discardPile s0 @ [crd]
   \<and> deck (run_effect (playCard s crd target) s0) = deck s0
   \<and> status (run_effect (playCard s crd target) s0) = status s0
   \<and> turn (run_effect (playCard s crd target) s0) = turn s0
   \<and> (\<not> (rank crd = EIGHT \<and> target = Ai) \<longrightarrow>
        currentSuit (run_effect (playCard s crd target) s0) = Some (suit crd))
   \<and> currentSuit (run_effect (playCard s crd target) s0) \<noteq> None
   \<and> playerHand (run_effect (playCard s crd target) s0) =
       (if target = Player then filter (\<lambda>c. card_id c \<noteq> card_id crd) (playerHand s0)
        else playerHand s0)
   \<and> aiHand (run_effect (playCard s crd target) s0) =
       (if target = Ai then filter (\<lambda>c. card_id c \<noteq> card_id crd) (aiHand s0)
        else aiHand s0)
   \<and> (card_id crd \<notin> card_id ` set (playerHand s0) \<longrightarrow>
        playerHand (run_effect (playCard s crd target) s0) = playerHand s0)
   \<and> (card_id crd \<notin> card_id ` set (aiHand s0) \<longrightarrow>
        aiHand (run_effect (playCard s crd target) s0) = aiHand s0)
   \<and> (crd \<notin> set (playerHand s0)
        \<and> (\<forall>c \<in> set (playerHand s0). card_id c = card_id crd \<longrightarrow> c = crd) \<longrightarrow>
        playerHand (run_effect (playCard s crd target) s0) = playerHand s0)
   \<and> (crd \<notin> set (aiHand s0)
        \<and> (\<forall>c \<in> set (aiHand s0). card_id c = card_id crd \<longrightarrow> c = crd) \<longrightarrow>
        aiHand (run_effect (playCard s crd target) s0) = aiHand s0)"
    using assms f [of "playerHand s"] f [of "aiHand s"]
    by (cases target) (simp_all add: playCard_def run_effect_def filter_other_ids)
  from main g show ?thesis
    by blast
qed

text \<open>
  The King of clubs is not playable on the table, is in no hand, and the status is that
  the opponent has won: the play is carried out all the same.
\<close>

theorem playCard_no_precondition_witness:
  "canPlay (table_7H_diamonds\<lparr> status := Ai_won \<rparr>) (mk_card KING CLUBS) = Inr False
   \<and> discardPile (run_effect
        (playCard (table_7H_diamonds\<lparr> status := Ai_won \<rparr>) (mk_card KING CLUBS) Player)
        (table_7H_diamonds\<lparr> status := Ai_won \<rparr>))
       = [mk_card SEVEN HEARTS, mk_card KING CLUBS]
   \<and> currentSuit (run_effect
        (playCard (table_7H_diamonds\<lparr> status := Ai_won \<rparr>) (mk_card KING CLUBS) Player)
        (table_7H_diamonds\<lparr> status := Ai_won \<rparr>)) = Some CLUBS
   \<and> playerHand (run_effect
        (playCard (table_7H_diamonds\<lparr> status := Ai_won \<rparr>) (mk_card KING CLUBS) Player)
        (table_7H_diamonds\<lparr> status := Ai_won \<rparr>)) = []
   \<and> handle \<lparr> now = 0, st = table_7H_diamonds\<lparr> status := Ai_won \<rparr>, pending = [] \<rparr>
        (ClickCard (mk_card KING CLUBS))
       = \<lparr> now = 0, st = table_7H_diamonds\<lparr> status := Ai_won \<rparr>, pending = [] \<rparr>"
  using playCard_no_precondition
    [where s = "table_7H_diamonds\<lparr> status := Ai_won \<rparr>"
       and ?s0.0 = "table_7H_diamonds\<lparr> status := Ai_won \<rparr>"
       and crd = "mk_card KING CLUBS" and target = Player
       and w = "\<lparr> now = 0, st = table_7H_diamonds\<lparr> status := Ai_won \<rparr>, pending = [] \<rparr>"]
  by (simp add: table_7H_diamonds_def initial_state_def mk_card_def canPlay_def)

section \<open>The opponent's decision\<close>

lemma filter_canPlay_nonempty:
  "discardPile s \<noteq> [] \<Longrightarrow>
   filter_canPlay s hand = Inr (filter (\<lambda>c. canPlay s c = Inr True) hand)"
  by (induction hand) (auto simp add: canPlay_def Let_def)

lemma hd_filter_find: "find P xs = Some x \<Longrightarrow> filter P xs \<noteq> [] \<and> hd (filter P xs) = x"
  by (induction xs) (auto split: if_splits)

lemma find_None_filter: "find P xs = None \<Longrightarrow> filter P xs = []"
  by (induction xs) (auto split: if_splits)

text \<open>
  One run of the decision, on a table with a top discard. When the hand has a playable
  card that is not an Eight, the first such card in hand order is played; otherwise, when
  it has a playable card, the first one is played, and it is an Eight; otherwise, when the
  deck is not empty, the last card of the deck is drawn and one timer of 1000 ms is
  started, whose callback sets the turn to the player whatever the drawn card is;
  otherwise the turn goes to the player at once. Every branch ends with
  \<^verbatim>\<open>setIsAiThinking(false)\<close>. The effect starts the decision, with a timer of 2000 ms, when
  the turn is the opponent's, the status is playing and no decision is pending.
\<close>

lemma aiTurn_single_run:
  assumes "discardPile s \<noteq> []"
  shows "timers (aiEffect s) =
           (if turn s = Ai \<and> status s = Playing \<and> \<not> isAiThinking s
            then [(2000, CbAiTurn s)] else [])
       \<and> run_callback (CbAiTurn s) = aiTurn s
       \<and> (case find (\<lambda>c. canPlay s c = Inr True \<and> rank c \<noteq> EIGHT) (aiHand s) of
            Some c \<Rightarrow>
              aiTurn s =
                (playCard s c Ai)
                  \<lparr> updates := updates (playCard s c Ai) @ [SetIsAiThinking False] \<rparr>
          | None \<Rightarrow>
              (case find (\<lambda>c. canPlay s c = Inr True) (aiHand s) of
                 Some c \<Rightarrow>
                   rank c = EIGHT
                   \<and> aiTurn s =
                       (playCard s c Ai)
                         \<lparr> updates := updates (playCard s c Ai) @ [SetIsAiThinking False] \<rparr>
               | None \<Rightarrow>
                   if deck s \<noteq> []
                   then aiTurn s =
                          \<lparr> updates = [SetDeck (butlast (deck s)),
                                       SetAiHand (aiHand s @ [last (deck s)]),
                                       SetMessage Msg_ai_drew, SetIsAiThinking False],
                            timers = [(1000, CbSetTurn Player)], raised = None \<rparr>
                        \<and> run_callback (CbSetTurn Player) =
                          \<lparr> updates = [SetTurn Player], timers = [], raised = None \<rparr>
                   else aiTurn s =
                          \<lparr> updates = [SetMessage Msg_ai_no_moves, SetTurn Player,
                                       SetIsAiThinking False],
                            timers = [], raised = None \<rparr>))"
proof -
  have g1: "timers (aiEffect s) =
      (if turn s = Ai \<and> status s = Playing \<and> \<not> isAiThinking s
       then [(2000, CbAiTurn s)] else [])"
    by (simp add: aiEffect_def)
  have g2: "run_callback (CbAiTurn s) = aiTurn s"
    by (simp add: run_callback_def)
  have main: "(case find (\<lambda>c. canPlay s c = Inr True \<and> rank c \<noteq> EIGHT) (aiHand s) of
            Some c \<Rightarrow>
              aiTurn s =
                (playCard s c Ai)
                  \<lparr> updates := updates (playCard s c Ai) @ [SetIsAiThinking False] \<rparr>
          | None \<Rightarrow>
              (case find (\<lambda>c. canPlay s c = Inr True) (aiHand s) of
                 Some c \<Rightarrow>
                   rank c = EIGHT
                   \<and> aiTurn s =
                       (playCard s c Ai)
                         \<lparr> updates := updates (playCard s c Ai) @ [SetIsAiThinking False] \<rparr>
               | None \<Rightarrow>
                   if deck s \<noteq> []
                   then aiTurn s =
                          \<lparr> updates = [SetDeck (butlast (deck s)),
                                       SetAiHand (aiHand s @ [last (deck s)]),
                                       SetMessage Msg_ai_drew, SetIsAiThinking False],
                            timers = [(1000, CbSetTurn Player)], raised = None \<rparr>
                        \<and> run_callback (CbSetTurn Player) =
                          \<lparr> updates = [SetTurn Player], timers = [], raised = None \<rparr>
                   else aiTurn s =
                          \<lparr> updates = [SetMessage Msg_ai_no_moves, SetTurn Player,
                                       SetIsAiThinking False],
                            timers = [], raised = None \<rparr>))"
  proof (cases "find (\<lambda>c. canPlay s c = Inr True \<and> rank c \<noteq> EIGHT) (aiHand s)")
    case (Some c)
    from hd_filter_find [OF Some]
    have ne: "filter (\<lambda>c. canPlay s c = Inr True \<and> rank c \<noteq> EIGHT) (aiHand s) \<noteq> []"
      and h: "hd (filter (\<lambda>c. canPlay s c = Inr True \<and> rank c \<noteq> EIGHT) (aiHand s)) = c"
      by simp_all
    from ne have ne': "filter (\<lambda>c. canPlay s c = Inr True) (aiHand s) \<noteq> []"
      by (auto simp add: filter_empty_conv)
    have eq: "filter (\<lambda>c. rank c \<noteq> EIGHT) (filter (\<lambda>c. canPlay s c = Inr True) (aiHand s))
        = filter (\<lambda>c. canPlay s c = Inr True \<and> rank c \<noteq> EIGHT) (aiHand s)"
      by (simp add: conj_commute)
    show ?thesis
      using assms Some ne ne' h
      by (simp add: aiTurn_def filter_canPlay_nonempty Let_def eq)
  next
    case None
    have noneights:
      "filter (\<lambda>c. rank c \<noteq> EIGHT) (filter (\<lambda>c. canPlay s c = Inr True) (aiHand s)) = []"
      using find_None_filter [OF None] by (simp add: conj_commute)
    show ?thesis
    proof (cases "find (\<lambda>c. canPlay s c = Inr True) (aiHand s)")
      case (Some c)
      from hd_filter_find [OF Some]
      have ne: "filter (\<lambda>c. canPlay s c = Inr True) (aiHand s) \<noteq> []"
        and h: "hd (filter (\<lambda>c. canPlay s c = Inr True) (aiHand s)) = c"
        by simp_all
      from ne h have "c \<in> set (filter (\<lambda>c. canPlay s c = Inr True) (aiHand s))"
        by (metis hd_in_set)
      with noneights have "rank c = EIGHT"
        by (auto simp add: filter_empty_conv)
      with assms None Some ne h noneights show ?thesis
        by (simp add: aiTurn_def filter_canPlay_nonempty Let_def)
    next
      case n2: None
      from find_None_filter [OF n2] assms None n2 show ?thesis
        by (simp add: aiTurn_def filter_canPlay_nonempty Let_def drawCard_def run_callback_def)
    qed
  qed
  from g1 g2 main show ?thesis
    by (intro conjI)
qed


lemma aiTurn_play_result:
  assumes "discardPile s \<noteq> []"
    and "find (\<lambda>c. canPlay s c = Inr True \<and> rank c \<noteq> EIGHT) (aiHand s) = Some c
         \<or> (find (\<lambda>c. canPlay s c = Inr True \<and> rank c \<noteq> EIGHT) (aiHand s) = None
            \<and> find (\<lambda>c. canPlay s c = Inr True) (aiHand s) = Some c)"
  shows "c \<in> set (aiHand s) \<and> canPlay s c = Inr True
       \<and> discardPile (run_effect (aiTurn s) s) = discardPile s @ [c]
       \<and> aiHand (run_effect (aiTurn s) s) = filter (\<lambda>x. card_id x \<noteq> card_id c) (aiHand s)
       \<and> playerHand (run_effect (aiTurn s) s) = playerHand s
       \<and> deck (run_effect (aiTurn s) s) = deck s
       \<and> isAiThinking (run_effect (aiTurn s) s) = False"
proof -
  from aiTurn_single_run [OF assms(1)] assms(2)
  have a: "aiTurn s =
      (playCard s c Ai)\<lparr> updates := updates (playCard s c Ai) @ [SetIsAiThinking False] \<rparr>"
    by auto
  from assms(2) have m: "c \<in> set (aiHand s) \<and> canPlay s c = Inr True"
    by (auto simp add: find_Some_iff in_set_conv_nth)
  show ?thesis
    unfolding a using m by (simp add: playCard_def run_effect_def)
qed

text \<open>
  Claim C8. The run of the decision does not look at the card it has drawn, but the draw
  starts a second decision that does. In \<open>redraw_trace\<close> the opponent, at 3000 ms, holds
  the turn with the status playing and has no playable card; it draws the King of spades
  and starts the timer that gives the turn to the player at 4000 ms. The draw has changed
  \<^verbatim>\<open>aiHand\<close> and \<^verbatim>\<open>deck.length\<close> while the turn is still the opponent's and \<^verbatim>\<open>isAiThinking\<close> is
  false again, so the effect has started another decision, due at 5000 ms. At 5000 ms, on
  the player's turn, that decision finds the drawn King of spades playable and plays it.
\<close>

theorem drawn_card_rechecked:
  "(case run initial_world (take 6 redraw_trace) of
      None \<Rightarrow> False
    | Some w \<Rightarrow>
        turn (st w) = Ai \<and> status (st w) = Playing
        \<and> map fst (pending w) = [3000]
        \<and> filter_canPlay (st w) (aiHand (st w)) = Inr []
        \<and> aiHand (st w) = take 8 (drop 8 example_deck)
        \<and> last (deck (st w)) = mk_card KING SPADES)
   \<and> (case run initial_world (take 7 redraw_trace) of
        None \<Rightarrow> False
      | Some w \<Rightarrow>
          now w = 3000
          \<and> aiHand (st w) = take 8 (drop 8 example_deck) @ [mk_card KING SPADES]
          \<and> map card_id (discardPile (st w)) = [''4-diamonds'', ''4-hearts'', ''8-spades'']
          \<and> map fst (pending w) = [4000, 5000])
   \<and> (case run initial_world (take 8 redraw_trace) of
        None \<Rightarrow> False
      | Some w \<Rightarrow> now w = 4000 \<and> turn (st w) = Player \<and> map fst (pending w) = [5000])
   \<and> (case run initial_world redraw_trace of
        None \<Rightarrow> False
      | Some w \<Rightarrow>
          now w = 5000 \<and> turn (st w) = Player \<and> status (st w) = Playing
          \<and> aiHand (st w) = take 8 (drop 8 example_deck)
          \<and> map card_id (discardPile (st w))
              = [''4-diamonds'', ''4-hearts'', ''8-spades'', ''K-spades''])"
  by code_simp

section \<open>The discard pile is never empty after setup\<close>

lemma apply_updates_pile:
  "list_all keeps_pile us \<Longrightarrow> discardPile s \<noteq> [] \<Longrightarrow> discardPile (apply_updates us s) \<noteq> []"
proof (induction us arbitrary: s)
  case Nil
  then show ?case by simp
next
  case (Cons u us)
  from Cons.prems have "discardPile (apply_update u s) \<noteq> []"
    by (cases u) simp_all
  with Cons show ?case by simp
qed

lemma start_timers_ok:
  "list_all (\<lambda>(delay, cb). cb_ok cb) ts \<Longrightarrow> list_all (\<lambda>(due, cb). cb_ok cb) (start_timers t ts)"
  by (induction ts) (auto simp add: start_timers_def)

lemma aiEffect_ok: "discardPile s \<noteq> [] \<Longrightarrow> effect_ok (aiEffect s)"
  by (simp add: aiEffect_def effect_ok_def)

lemma commit_ok_gen:
  assumes "list_all (\<lambda>(due, cb). cb_ok cb) (pending w)" and "effect_ok e"
    and s': "discardPile (apply_updates (updates e) (st w)) \<noteq> []"
  shows "world_ok (commit w e)"
proof -
  let ?s' = "apply_updates (updates e) (st w)"
  let ?eff = "if deps_changed (st w) (updates e) ?s' then aiEffect ?s'
              else \<lparr> updates = [], timers = [], raised = None \<rparr>"
  have eff: "effect_ok ?eff"
  proof (cases "deps_changed (st w) (updates e) ?s'")
    case True
    with s' show ?thesis by (simp add: aiEffect_ok)
  next
    case False
    then show ?thesis by (simp add: effect_ok_def)
  qed
  from eff have "list_all keeps_pile (updates ?eff)"
    unfolding effect_ok_def by (rule conjunct1)
  then have "discardPile (apply_updates (updates ?eff) ?s') \<noteq> []"
    using s' by (rule apply_updates_pile)
  moreover have "list_all (\<lambda>(due, cb). cb_ok cb)
      (pending w @ start_timers (now w) (timers e) @ start_timers (now w) (timers ?eff))"
    using assms(1,2) eff by (simp add: effect_ok_def start_timers_ok)
  ultimately show ?thesis
    by (simp add: commit_def world_ok_def Let_def)
qed

lemma commit_ok:
  assumes "world_ok w" and "effect_ok e"
  shows "world_ok (commit w e)"
proof (rule commit_ok_gen)
  from assms(1) show "list_all (\<lambda>(due, cb). cb_ok cb) (pending w)"
    by (simp add: world_ok_def)
  from assms show "discardPile (apply_updates (updates e) (st w)) \<noteq> []"
    by (simp add: world_ok_def effect_ok_def apply_updates_pile)
qed (rule assms(2))

lemma playCard_ok: "effect_ok (playCard s c target)"
  by (simp add: playCard_def effect_ok_def)

lemma drawCard_ok: "effect_ok (drawCard s target)"
  by (simp add: drawCard_def effect_ok_def Let_def split: sum.split)

lemma handleSuitSelect_ok: "effect_ok (handleSuitSelect s su)"
  by (simp add: handleSuitSelect_def effect_ok_def)

lemma initGame_ok: "effect_ok (initGame d)"
  by (simp add: initGame_def effect_ok_def Let_def split: sum.split)

lemma aiTurn_ok: "effect_ok (aiTurn s)"
proof -
  have p: "effect_ok (playCard s c Ai)" for c by (rule playCard_ok)
  have d: "effect_ok (drawCard s Ai)" by (rule drawCard_ok)
  show ?thesis
    using p d by (simp add: aiTurn_def effect_ok_def Let_def split: sum.split)
qed

lemma run_callback_ok: "effect_ok (run_callback cb)"
  by (cases cb) (simp_all add: run_callback_def aiTurn_ok checkWin_def, simp_all add: effect_ok_def)

lemma next_timer_ok:
  "next_timer ts = Some ((due, cb), rest) \<Longrightarrow> list_all (\<lambda>(due, cb). cb_ok cb) ts \<Longrightarrow>
   list_all (\<lambda>(due, cb). cb_ok cb) rest"
  by (induction ts arbitrary: due cb rest) (auto split: option.splits if_splits)

lemma handle_ok: "world_ok w \<Longrightarrow> world_ok (handle w a)"
  by (cases a)
     (simp_all add: handle_def commit_ok playCard_ok drawCard_ok handleSuitSelect_ok initGame_ok)

lemma step_ok:
  assumes "world_ok w" and "step w ev = Some w'"
  shows "world_ok w'"
proof (cases ev)
  case (User t a)
  from assms(1) have "world_ok (w\<lparr> now := t \<rparr>)" by (simp add: world_ok_def)
  then have "world_ok (handle (w\<lparr> now := t \<rparr>) a)" by (rule handle_ok)
  with assms(2) User show ?thesis by (auto simp add: step_def split: if_splits)
next
  case Timer
  with assms(2) obtain due cb rest where n: "next_timer (pending w) = Some ((due, cb), rest)"
    and w': "w' = commit (w\<lparr> now := max (now w) due, pending := rest \<rparr>) (run_callback cb)"
    by (auto simp add: step_def split: option.splits)
  from assms(1) n have "world_ok (w\<lparr> now := max (now w) due, pending := rest \<rparr>)"
    by (auto simp add: world_ok_def dest: next_timer_ok)
  then show ?thesis
    unfolding w' by (rule commit_ok) (rule run_callback_ok)
qed

lemma run_ok: "world_ok w \<Longrightarrow> run w evs = Some w' \<Longrightarrow> world_ok w'"
proof (induction evs arbitrary: w)
  case Nil
  then show ?case by simp
next
  case (Cons ev evs)
  then show ?case by (auto split: option.splits dest: step_ok)
qed

lemma initGame_pile:
  "raised (initGame d) = None \<Longrightarrow> discardPile (apply_updates (updates (initGame d)) s) \<noteq> []"
  by (cases "firstDiscardIndex (drop 8 (drop 8 d)) 0")
     (simp_all add: initGame_def Let_def del: drop_drop)

lemma setup_ok:
  assumes "raised (initGame d) = None"
  shows "world_ok (handle (initial_world\<lparr> now := t \<rparr>) (Setup d))"
proof -
  have "world_ok (commit (initial_world\<lparr> now := t \<rparr>) (initGame d))"
  proof (rule commit_ok_gen)
    show "list_all (\<lambda>(due, cb). cb_ok cb) (pending (initial_world\<lparr> now := t \<rparr>))"
      by (simp add: initial_world_def)
    show "effect_ok (initGame d)" by (rule initGame_ok)
    from assms show "discardPile (apply_updates (updates (initGame d))
        (st (initial_world\<lparr> now := t \<rparr>))) \<noteq> []"
      by (rule initGame_pile)
  qed
  then show ?thesis by (simp add: handle_def)
qed

lemma other_suit: "\<exists>su. Some su \<noteq> (x :: suit option)"
proof (cases "x = Some HEARTS")
  case True
  then have "Some DIAMONDS \<noteq> x" by simp
  then show ?thesis ..
next
  case False
  then have "Some HEARTS \<noteq> x" by auto
  then show ?thesis ..
qed

text \<open>
  Claim C9. After a first setup that succeeds, whatever the clicks and the timers that
  follow (restarts included): the discard pile of the current state is not empty, so
  \<^verbatim>\<open>canPlay\<close> throws for no card; the same holds of the state every pending decision of the
  opponent has closed over. And on any state, \<^verbatim>\<open>canPlay\<close> returns for every card that is not
  an Eight exactly when the discard pile is not empty.
\<close>

theorem discardPile_never_empty:
  assumes "raised (initGame d) = None"
    and "run initial_world (User t (Setup d) # evs) = Some w"
  shows "discardPile (st w) \<noteq> []
       \<and> (\<forall>c. canPlay (st w) c \<noteq> Inl TypeError)
       \<and> (\<forall>due s c. (due, CbAiTurn s) \<in> set (pending w) \<longrightarrow> canPlay s c \<noteq> Inl TypeError)
       \<and> (\<forall>s. (\<forall>c. rank c \<noteq> EIGHT \<longrightarrow> canPlay s c \<noteq> Inl TypeError) \<longleftrightarrow> discardPile s \<noteq> [])"
proof -
  from assms(2) have "run (handle (initial_world\<lparr> now := t \<rparr>) (Setup d)) evs = Some w"
    by (simp add: step_def initial_world_def split: if_splits)
  with setup_ok [OF assms(1)] have ok: "world_ok w"
    by (rule run_ok)
  then have 1: "discardPile (st w) \<noteq> []"
    by (simp add: world_ok_def)
  have 3: "canPlay s c \<noteq> Inl TypeError" if "(due, CbAiTurn s) \<in> set (pending w)" for due s c
  proof -
    from ok that have "cb_ok (CbAiTurn s)"
      by (auto simp add: world_ok_def list_all_iff)
    then show ?thesis by (simp add: canPlay_TypeError)
  qed
  have 4: "(\<forall>c. rank c \<noteq> EIGHT \<longrightarrow> canPlay s c \<noteq> Inl TypeError) \<longleftrightarrow> discardPile s \<noteq> []" for s
  proof
    assume a: "\<forall>c. rank c \<noteq> EIGHT \<longrightarrow> canPlay s c \<noteq> Inl TypeError"
    obtain su where su: "Some su \<noteq> currentSuit s"
      using other_suit by blast
    from a have "canPlay s \<lparr>card_id = [], suit = su, rank = ACE\<rparr> \<noteq> Inl TypeError"
      by simp
    with su show "discardPile s \<noteq> []"
      by (simp add: canPlay_TypeError)
  next
    assume "discardPile s \<noteq> []"
    then show "\<forall>c. rank c \<noteq> EIGHT \<longrightarrow> canPlay s c \<noteq> Inl TypeError"
      by (simp add: canPlay_TypeError)
  qed
  from 1 3 4 show ?thesis
    by (simp add: canPlay_TypeError)
qed


theorem discardPile_never_empty_witness:
  "raised (initGame example_deck) = None
   \<and> (\<exists>w. run initial_world
              [User 0 (Setup example_deck), User 0 (ClickCard (mk_card FOUR HEARTS)), Timer]
            = Some w
          \<and> discardPile (st w) \<noteq> []
          \<and> canPlay (st w) (mk_card KING CLUBS) \<noteq> Inl TypeError)"
proof -
  have r: "raised (initGame example_deck) = None"
    by code_simp
  have "run initial_world
          [User 0 (Setup example_deck), User 0 (ClickCard (mk_card FOUR HEARTS)), Timer]
        \<noteq> None"
    by code_simp
  then obtain w where w: "run initial_world
      (User 0 (Setup example_deck) # [User 0 (ClickCard (mk_card FOUR HEARTS)), Timer]) = Some w"
    by auto
  from discardPile_never_empty [OF r w] w r show ?thesis
    by auto
qed

section \<open>Each operation, on the state it reads, keeps the cards\<close>

text \<open>
  \<^verbatim>\<open>initGame\<close> distributes the shuffled deck; \<^verbatim>\<open>drawCard\<close> moves the last card of the deck to
  a hand; \<^verbatim>\<open>playCard\<close> moves a card of the acting side's hand to the discard pile, when the
  identifiers of that hand are distinct. Each of the three lemmas is about the setter
  calls applied to the very state the operation has read.
\<close>

lemma mset_butlast_last: "xs \<noteq> [] \<Longrightarrow> mset (butlast xs) + {#last xs#} = mset xs"
  by (induction xs) auto

lemma mset_remove_id:
  "distinct (map card_id xs) \<Longrightarrow> c \<in> set xs \<Longrightarrow>
   mset (filter (\<lambda>x. card_id x \<noteq> card_id c) xs) + {#c#} = mset xs"
proof (induction xs)
  case Nil
  then show ?case by simp
next
  case (Cons x xs)
  show ?case
  proof (cases "x = c")
    case True
    with Cons.prems have "card_id c \<notin> card_id ` set xs" by simp
    then have "filter (\<lambda>x. card_id x \<noteq> card_id c) xs = xs"
      by (rule filter_other_ids)
    with True show ?thesis by simp
  next
    case False
    with Cons.prems have "c \<in> set xs" by simp
    with Cons.prems have "card_id x \<noteq> card_id c" by auto
    with Cons \<open>c \<in> set xs\<close> show ?thesis by simp
  qed
qed

lemma mset_without_nth:
  "i < length xs \<Longrightarrow> mset (take i xs @ drop (Suc i) xs) + {#xs ! i#} = mset xs"
proof -
  assume "i < length xs"
  then have "xs = take i xs @ xs ! i # drop (Suc i) xs"
    by (rule id_take_nth_drop)
  then have "mset xs = mset (take i xs @ xs ! i # drop (Suc i) xs)"
    by simp
  then show ?thesis by simp
qed

lemma initGame_cards:
  assumes "raised (initGame d) = None"
  shows "cards (run_effect (initGame d) s) = mset d"
proof -
  define A where "A = take 8 d"
  define B where "B = take 8 (drop 8 d)"
  define R where "R = drop 8 (drop 8 d)"
  from assms obtain i where i: "firstDiscardIndex R 0 = Inr i"
    unfolding R_def
    by (cases "firstDiscardIndex (drop 8 (drop 8 d)) 0")
       (simp_all add: initGame_def Let_def del: drop_drop)
  define D where "D = take i R @ drop (Suc i) R"
  from firstDiscardIndex_Inr [OF i] have "i < length R" by simp
  then have "mset D + {#R ! i#} = mset R"
    unfolding D_def by (rule mset_without_nth)
  then have r: "mset R = mset D + {#R ! i#}" by simp
  have "d = A @ B @ R"
    unfolding A_def B_def R_def by (simp del: drop_drop)
  then have d: "mset d = mset A + mset B + mset R" by simp
  have u: "deck (run_effect (initGame d) s) = D" "playerHand (run_effect (initGame d) s) = A"
    "aiHand (run_effect (initGame d) s) = B" "discardPile (run_effect (initGame d) s) = [R ! i]"
    using i unfolding A_def B_def R_def D_def
    by (simp_all add: run_effect_def initGame_def Let_def del: drop_drop nth_drop)
  show ?thesis
    by (simp add: cards_def u d r)
qed

lemma drawCard_cards: "cards (run_effect (drawCard s target) s) = cards s"
proof (cases "deck s = []")
  case True
  then show ?thesis by (simp add: cards_def run_effect_def drawCard_def)
next
  case False
  then have "mset (butlast (deck s)) + {#last (deck s)#} = mset (deck s)"
    by (rule mset_butlast_last)
  then have "mset (deck s) = mset (butlast (deck s)) + {#last (deck s)#}" by simp
  with False show ?thesis
    by (cases target)
       (simp_all add: cards_def run_effect_def drawCard_def Let_def split: sum.split)
qed

lemma playCard_cards:
  assumes "distinct (map card_id (if target = Player then playerHand s else aiHand s))"
    and "c \<in> set (if target = Player then playerHand s else aiHand s)"
  shows "cards (run_effect (playCard s c target) s) = cards s"
proof (cases target)
  case Player
  define F where "F = filter (\<lambda>x. card_id x \<noteq> card_id c) (playerHand s)"
  from assms Player have dm: "distinct (map card_id (playerHand s))" "c \<in> set (playerHand s)"
    by simp_all
  have "mset F + {#c#} = mset (playerHand s)"
    unfolding F_def using dm by (rule mset_remove_id)
  then have e: "mset (playerHand s) = mset F + {#c#}" by simp
  have u: "deck (run_effect (playCard s c Player) s) = deck s"
    "discardPile (run_effect (playCard s c Player) s) = discardPile s @ [c]"
    "playerHand (run_effect (playCard s c Player) s) = F"
    "aiHand (run_effect (playCard s c Player) s) = aiHand s"
    unfolding F_def by (simp_all add: run_effect_def playCard_def)
  show ?thesis
    unfolding Player by (simp add: cards_def u e)
next
  case Ai
  define F where "F = filter (\<lambda>x. card_id x \<noteq> card_id c) (aiHand s)"
  from assms Ai have dm: "distinct (map card_id (aiHand s))" "c \<in> set (aiHand s)"
    by simp_all
  have "mset F + {#c#} = mset (aiHand s)"
    unfolding F_def using dm by (rule mset_remove_id)
  then have e: "mset (aiHand s) = mset F + {#c#}" by simp
  have u: "deck (run_effect (playCard s c Ai) s) = deck s"
    "discardPile (run_effect (playCard s c Ai) s) = discardPile s @ [c]"
    "playerHand (run_effect (playCard s c Ai) s) = playerHand s"
    "aiHand (run_effect (playCard s c Ai) s) = F"
    unfolding F_def by (simp_all add: run_effect_def playCard_def)
  show ?thesis
    unfolding Ai by (simp add: cards_def u e)
qed

section \<open>Decisions that run on a table that is no longer there\<close>

text \<open>
  Claim C6. The opponent's decision runs on the state that was current when the effect
  started its timer. In \<open>lost_card_trace\<close> the player plays the Ace of hearts between the
  start of the opponent's second decision and its run; the decision then sets the discard
  pile to the pile it closed over followed by the King of spades. The Ace of hearts, a
  card of the deck, is then in neither hand, not in the deck and not in the discard pile,
  which hold 51 cards together.
\<close>

theorem stale_decision_loses_card:
  "standard_deck example_deck
   \<and> (case run initial_world lost_card_trace of
        None \<Rightarrow> False
      | Some w \<Rightarrow>
          mk_card ACE HEARTS \<in> set example_deck
          \<and> mk_card ACE HEARTS \<notin>
              set (deck (st w) @ playerHand (st w) @ aiHand (st w) @ discardPile (st w))
          \<and> length (deck (st w) @ playerHand (st w) @ aiHand (st w) @ discardPile (st w)) = 51
          \<and> status (st w) = Playing)"
  by code_simp

text \<open>
  Once the status is not \<^verbatim>\<open>playing\<close>, a click on a card or on the draw pile does nothing and
  the effect starts no decision.
\<close>

lemma terminal_clicks_ignored:
  "status (st w) \<noteq> Playing \<Longrightarrow>
   handle w (ClickCard c) = w \<and> handle w ClickDraw = w
   \<and> aiEffect (st w) = \<lparr> updates = [], timers = [], raised = None \<rparr>"
  by (simp add: handle_def aiEffect_def)

text \<open>
  Claim C7. The effect tests the status when it starts the timer of the opponent's
  decision, and the decision does not test it again. In \<open>quick_win_trace\<close> the status
  becomes \<^verbatim>\<open>player_won\<close> at 2700 ms, while the decision started at 1000 ms is pending; at
  3000 ms it runs, and the opponent draws the King of spades from the deck.
\<close>

theorem pending_decision_runs_after_win:
  "(case run initial_world quick_win_trace of
      None \<Rightarrow> False
    | Some w \<Rightarrow>
        status (st w) = Player_won
        \<and> map fst (pending w) = [3000]
        \<and> (case step w Timer of
             None \<Rightarrow> False
           | Some w' \<Rightarrow>
               status (st w') = Player_won
               \<and> aiHand (st w') = aiHand (st w) @ [mk_card KING SPADES]
               \<and> deck (st w') = butlast (deck (st w))))"
  by code_simp

end
